theory Spec2Isabelle
  imports Main "HOL-Library.Sublist"
begin

section \<open>Python strings\<close>

text \<open>
  A Python \<open>str\<close> is a sequence of code points. It is modelled as a \<^typ>\<open>string\<close>, one
  \<^typ>\<open>char\<close> per code point, which covers the code points below 256 (ASCII and Latin-1).
  The text of a file is the value \<open>f.read()\<close> returns, after decoding.
\<close>

definition isspace :: "char \<Rightarrow> bool" where
  \<comment> \<open>\<open>str.isspace\<close> and the regular expression class \<open>\s\<close> on code points below 256\<close>
  "isspace c =
     (let n = (of_char c :: nat)
      in (9 \<le> n \<and> n \<le> 13) \<or> (28 \<le> n \<and> n \<le> 32) \<or> n = 133 \<or> n = 160)"

definition strip :: "string \<Rightarrow> string" where
  \<comment> \<open>\<open>s.strip()\<close>\<close>
  "strip s = rev (dropWhile isspace (rev (dropWhile isspace s)))"

definition startswith :: "string \<Rightarrow> string \<Rightarrow> bool" where
  \<comment> \<open>\<open>s.startswith(p)\<close>\<close>
  "startswith s p = prefix p s"

definition contains :: "string \<Rightarrow> string \<Rightarrow> bool" where
  \<comment> \<open>\<open>sub in s\<close>\<close>
  "contains sub s = sublist sub s"

fun find_sep :: "string \<Rightarrow> string \<Rightarrow> (string \<times> string) option" where
  \<comment> \<open>the text before and after the first occurrence of \<open>sep\<close>, if there is one\<close>
  "find_sep sep [] = (if sep = [] then Some ([], []) else None)"
| "find_sep sep (c # cs) =
     (if prefix sep (c # cs) then Some ([], drop (length sep) (c # cs))
      else map_option (\<lambda>(a, r). (c # a, r)) (find_sep sep cs))"

fun py_splitn :: "string \<Rightarrow> nat \<Rightarrow> string \<Rightarrow> string list" where
  \<comment> \<open>\<open>s.split(sep, maxsplit)\<close> for a non-empty \<open>sep\<close>: at most \<open>maxsplit\<close> cuts,
      made at the leftmost occurrences\<close>
  "py_splitn sep 0 s = [s]"
| "py_splitn sep (Suc n) s =
     (case find_sep sep s of
        None \<Rightarrow> [s]
      | Some (a, r) \<Rightarrow> a # py_splitn sep n r)"

definition py_split :: "string \<Rightarrow> string \<Rightarrow> string list" where
  \<comment> \<open>\<open>s.split(sep)\<close>: no limit on the cuts; a text of \<open>k\<close> characters has fewer than
      \<open>k\<close> occurrences of a non-empty \<open>sep\<close>, so the limit \<open>length s\<close> is never reached\<close>
  "py_split sep s = py_splitn sep (length s) s"

definition lower_char :: "char \<Rightarrow> char" where
  "lower_char c =
     (let n = (of_char c :: nat)
      in if (65 \<le> n \<and> n \<le> 90) \<or> (192 \<le> n \<and> n \<le> 222 \<and> n \<noteq> 215)
         then char_of (n + 32) else c)"

definition lower :: "string \<Rightarrow> string" where
  \<comment> \<open>\<open>s.lower()\<close>\<close>
  "lower s = map lower_char s"

section \<open>The regular expressions\<close>

definition is_quote :: "char \<Rightarrow> bool" where
  \<comment> \<open>the class \<open>["\']\<close>\<close>
  "is_quote c = (c = CHR 0x22 \<or> c = CHR 0x27)"

fun sub_end_quote :: "string \<Rightarrow> string" where
  \<comment> \<open>removes the match of \<open>["\']$\<close>: a quote that is the last character, or the one
      before a final newline\<close>
  "sub_end_quote [] = []"
| "sub_end_quote [c] = (if is_quote c then [] else [c])"
| "sub_end_quote [c, d] =
     (if is_quote c \<and> d = CHR ''\<newline>'' then [d] else c # sub_end_quote [d])"
| "sub_end_quote (c # cs) = c # sub_end_quote cs"

definition sub_quotes :: "string \<Rightarrow> string" where
  \<comment> \<open>\<open>re.sub(r'^["\']|["\']$', '', s)\<close>: every match is deleted; the first alternative
      matches a quote at position 0 only, the second a quote at the end\<close>
  "sub_quotes s =
     (case s of
        [] \<Rightarrow> []
      | c # cs \<Rightarrow> if is_quote c then sub_end_quote cs else sub_end_quote (c # cs))"

definition sub_heading :: "string \<Rightarrow> string" where
  \<comment> \<open>\<open>re.sub(r'^#+\s*', '', s)\<close>: the only match starts at position 0 and takes every
      leading \<open>#\<close> and then every whitespace character that follows\<close>
  "sub_heading s =
     (case s of
        [] \<Rightarrow> []
      | c # cs \<Rightarrow>
          if c = CHR ''#''
          then dropWhile isspace (dropWhile (\<lambda>x. x = CHR ''#'') (c # cs))
          else c # cs)"

section \<open>The functions of \<open>migrate_titles.py\<close>\<close>

definition parse_note_file :: "string \<Rightarrow> (string \<times> string \<times> string) option" where
  \<comment> \<open>on the text read from the file; \<open>None\<close> is the triple \<open>(None, None, None)\<close>\<close>
  "parse_note_file content =
     (case py_splitn ''---\<newline>'' 2 content of
        [p0, p1, p2] \<Rightarrow> Some (strip p1, strip p2, content)
      | _ \<Rightarrow> None)"

fun title_of_lines :: "string list \<Rightarrow> string" where
  \<comment> \<open>the loop of \<open>extract_title_from_yaml\<close>\<close>
  "title_of_lines [] = ''''"
| "title_of_lines (line # rest) =
     (if startswith line ''title:'' then sub_quotes (strip (drop 6 line))
      else title_of_lines rest)"

definition extract_title_from_yaml :: "string \<Rightarrow> string" where
  "extract_title_from_yaml yaml_content =
     title_of_lines (py_split ''\<newline>'' yaml_content)"

definition get_first_line_title :: "string \<Rightarrow> string" where
  "get_first_line_title content =
     (if content = [] then ''''
      else sub_heading (strip (hd (py_split ''\<newline>'' content))))"

definition needs_migration :: "string \<Rightarrow> string \<Rightarrow> bool" where
  "needs_migration stored_title first_line =
     (if stored_title = [] then False
      else if contains ''{{'' stored_title then True
      else first_line \<noteq> stored_title)"

definition new_content :: "string \<Rightarrow> string \<Rightarrow> string" where
  \<comment> \<open>\<open>f"# {stored_title}\n\n{note_content}"\<close>\<close>
  "new_content stored_title note_content =
     ''# '' @ stored_title @ ''\<newline>\<newline>'' @ note_content"

definition full_content :: "string \<Rightarrow> string \<Rightarrow> string" where
  \<comment> \<open>\<open>f"---\n{yaml_content}\n---\n\n{new_content}\n"\<close>\<close>
  "full_content yaml_content body =
     ''---\<newline>'' @ yaml_content @ ''\<newline>---\<newline>\<newline>'' @ body @ ''\<newline>''"

section \<open>The files and the outside world\<close>

text \<open>
  A directory maps the names of its files to their text. The file system is the directory
  \<open>~/.local/share/nx\<close>: it maps the names of its subdirectories (\<open>notes\<close> and the
  backups) to directories. Everything the run does not decide itself is an input, collected
  in a record: the clock, the order in which \<open>glob\<close> lists the notes, the answer typed at
  the prompt, and the operations of the operating system that fail. Every failure modelled
  is a Python \<open>Exception\<close>; it carries the text \<open>str(e)\<close>.
\<close>

type_synonym directory = "string \<rightharpoonup> string"

type_synonym fs = "string \<rightharpoonup> directory"

datatype error = Exception string

fun error_text :: "error \<Rightarrow> string" where
  "error_text (Exception msg) = msg"

record env =
  data_dir :: string  \<comment> \<open>\<open>str(notes_dir.parent)\<close>\<close>
  now :: string  \<comment> \<open>\<open>datetime.now().strftime('%Y%m%d_%H%M%S')\<close>\<close>
  copytree_error :: "error option"  \<comment> \<open>\<open>shutil.copytree\<close> failing\<close>
  glob_md :: "string list"  \<comment> \<open>the names \<open>notes_dir.glob("*.md")\<close> lists, in its order\<close>
  read_error :: "string \<Rightarrow> error option"  \<comment> \<open>a note that cannot be opened or decoded\<close>
  response :: "error + string"  \<comment> \<open>what \<open>input\<close> returns, or raises\<close>
  write_fault :: "string \<Rightarrow> (error \<times> string option) option"
    \<comment> \<open>a note that cannot be written: the exception, and the text left in the file when
        the failure came after the file was opened (and so truncated)\<close>

type_synonym migration_record = "string \<times> string \<times> string \<times> string"
  \<comment> \<open>\<open>(note_file, stored_title, yaml_content, note_content)\<close>\<close>

definition quoted :: "string \<Rightarrow> string" where
  \<comment> \<open>\<open>'{s}'\<close> inside an f-string\<close>
  "quoted s = [CHR 0x27] @ s @ [CHR 0x27]"

fun str_nat :: "nat \<Rightarrow> string" where
  \<comment> \<open>\<open>str(n)\<close> for a count\<close>
  "str_nat n =
     (if n < 10 then [''0123456789'' ! n]
      else str_nat (n div 10) @ [''0123456789'' ! (n mod 10)])"

definition read_text :: "env \<Rightarrow> directory \<Rightarrow> string \<Rightarrow> error + string" where
  \<comment> \<open>\<open>open(filepath, 'r', encoding='utf-8')\<close> and \<open>f.read()\<close>\<close>
  "read_text e d name =
     (case read_error e name of
        Some err \<Rightarrow> Inl err
      | None \<Rightarrow>
          (case d name of
             None \<Rightarrow> Inl (Exception ''No such file or directory'')
           | Some text \<Rightarrow> Inr text))"

definition write_text :: "env \<Rightarrow> directory \<Rightarrow> string \<Rightarrow> string \<Rightarrow> error option \<times> directory" where
  \<comment> \<open>\<open>open(filepath, 'w', encoding='utf-8')\<close> and \<open>f.write(text)\<close>\<close>
  "write_text e d name text =
     (case write_fault e name of
        None \<Rightarrow> (None, d(name \<mapsto> text))
      | Some (err, None) \<Rightarrow> (Some err, d)
      | Some (err, Some left) \<Rightarrow> (Some err, d(name \<mapsto> left)))"

definition copytree :: "env \<Rightarrow> fs \<Rightarrow> directory \<Rightarrow> string \<Rightarrow> error + fs" where
  \<comment> \<open>\<open>shutil.copytree(notes_dir, backup_dir)\<close>: the destination must not exist\<close>
  "copytree e f d dst =
     (case copytree_error e of
        Some err \<Rightarrow> Inl err
      | None \<Rightarrow>
          if f dst \<noteq> None then Inl (Exception ''File exists'')
          else Inr (f(dst \<mapsto> d)))"

definition migrate_note ::
  "env \<Rightarrow> directory \<Rightarrow> string \<Rightarrow> string \<Rightarrow> string \<Rightarrow> string \<Rightarrow> error option \<times> directory" where
  "migrate_note e d filepath stored_title yaml_content note_content =
     write_text e d filepath
       (full_content yaml_content (new_content stored_title note_content))"

section \<open>The driver\<close>

definition analyze_note :: "string \<Rightarrow> string \<Rightarrow> string list \<times> migration_record option" where
  \<comment> \<open>the body of the loop "Analyze each note", on the text read from the file: what it
      prints, and the record it appends to \<open>notes_to_migrate\<close>\<close>
  "analyze_note name text =
     (let out0 = [''\<newline>Analyzing: '' @ name]
      in case parse_note_file text of
           None \<Rightarrow> (out0 @ [''  SKIP: Invalid format''], None)
         | Some (yaml_content, note_content, whole) \<Rightarrow>
             (let stored_title = extract_title_from_yaml yaml_content;
                  first_line = get_first_line_title note_content;
                  out1 = out0 @ [''  Stored title: '' @ quoted stored_title,
                                 ''  First line: '' @ quoted first_line]
              in if startswith stored_title ''.notebook''
                 then (out1 @ [''  SKIP: Notebook marker file''], None)
                 else if contains ''{{'' stored_title
                 then (out1 @ [''  SKIP: Contains template variables (needs manual attention)''],
                       None)
                 else if needs_migration stored_title first_line
                 then (out1 @ [''  NEEDS MIGRATION''],
                       Some (name, stored_title, yaml_content, note_content))
                 else (out1 @ [''  OK: Title already matches''], None)))"

fun analyze ::
  "env \<Rightarrow> directory \<Rightarrow> string list \<Rightarrow> error + (migration_record list \<times> string list)" where
  \<comment> \<open>the loop "Analyze each note": the records in the order of the files, and the lines
      printed; a note that cannot be read raises out of \<open>main\<close>\<close>
  "analyze e d [] = Inr ([], [])"
| "analyze e d (name # rest) =
     (case read_text e d name of
        Inl err \<Rightarrow> Inl err
      | Inr text \<Rightarrow>
          (case analyze_note name text of
             (out, r) \<Rightarrow>
               (case analyze e d rest of
                  Inl err \<Rightarrow> Inl err
                | Inr (recs, outs) \<Rightarrow>
                    Inr ((case r of None \<Rightarrow> recs | Some x \<Rightarrow> x # recs), out @ outs))))"

fun migrate_all ::
  "env \<Rightarrow> directory \<Rightarrow> migration_record list \<Rightarrow> directory \<times> nat \<times> string list" where
  \<comment> \<open>the loop "Perform migration": the directory afterwards, \<open>migrated_count\<close> and the
      lines printed\<close>
  "migrate_all e d [] = (d, 0, [])"
| "migrate_all e d ((name, stored_title, yaml_content, note_content) # rest) =
     (case migrate_note e d name stored_title yaml_content note_content of
        (None, d1) \<Rightarrow>
          (case migrate_all e d1 rest of
             (d2, k, out) \<Rightarrow>
               (d2, Suc k, (''  MIGRATED: '' @ name @ '' - '' @ quoted stored_title) # out))
      | (Some err, d1) \<Rightarrow>
          (case migrate_all e d1 rest of
             (d2, k, out) \<Rightarrow>
               (d2, k,
                (''  ERROR: Failed to migrate '' @ name @ '': '' @ error_text err) # out)))"

definition backup_name :: "env \<Rightarrow> string" where
  "backup_name e = ''notes_backup_'' @ now e"

definition main :: "env \<Rightarrow> fs \<Rightarrow> error + (int \<times> fs \<times> string list)" where
  \<comment> \<open>\<open>Inl\<close>: an exception leaves \<open>main\<close>; \<open>Inr\<close>: the value returned (the exit status),
      the file system afterwards and the lines printed\<close>
  "main e f =
     (let notes_dir = data_dir e @ ''/notes'';
          backup_dir = data_dir e @ ''/'' @ backup_name e;
          out0 = [''=== Note Title Migration Tool ==='',
                  ''This will update notes to ensure their title matches the first line of content.'']
      in case f ''notes'' of
           None \<Rightarrow> Inr (1, f, out0 @ [''Error: Notes directory not found at '' @ notes_dir])
         | Some d \<Rightarrow>
             (let out1 = out0 @ [''Creating backup at: '' @ backup_dir]
              in case copytree e f d (backup_name e) of
                   Inl err \<Rightarrow> Inl err
                 | Inr f1 \<Rightarrow>
                     (let note_files = glob_md e;
                          out2 = out1 @ [''Found '' @ str_nat (length note_files) @ '' notes to analyze...'']
                      in if note_files = []
                         then Inr (0, f1, out2 @ [''No notes found to migrate.''])
                         else case analyze e d note_files of
                                Inl err \<Rightarrow> Inl err
                              | Inr (notes_to_migrate, outs) \<Rightarrow>
                                  (let out3 = out2 @ outs @
                                         [''\<newline>Analysis complete. '' @ str_nat (length notes_to_migrate)
                                            @ '' notes need migration.'']
                                   in if notes_to_migrate = []
                                      then Inr (0, f1, out3 @ [''No migration needed!''])
                                      else case response e of
                                             Inl err \<Rightarrow> Inl err
                                           | Inr answer \<Rightarrow>
                                               (let out4 = out3 @ [''Proceed with migration? (y/N): '']
                                                in if lower answer \<noteq> ''y''
                                                   then Inr (0, f1, out4 @ [''Migration cancelled.''])
                                                   else case migrate_all e d notes_to_migrate of
                                                          (d2, migrated_count, outm) \<Rightarrow>
                                                            Inr (0, f1(''notes'' \<mapsto> d2),
                                                                 out4 @ [''Starting migration...''] @ outm @
                                                                 [''\<newline>Migration complete! Successfully migrated ''
                                                                    @ str_nat migrated_count @ '' notes.'',
                                                                  ''Backup created at: '' @ backup_dir] @
                                                                 (if migrated_count > 0
                                                                  then [''\<newline>You can now use your notes with the new title system.'',
                                                                        ''If something goes wrong, restore from backup: cp -r ''
                                                                          @ quoted backup_dir @ ''/* '' @ quoted notes_dir @ ''/'']
                                                                  else [])))))))"

section \<open>Statements of the specification\<close>

fun join_lines :: "string list \<Rightarrow> string" where
  \<comment> \<open>the text whose lines are \<open>ls\<close>: the lines with one newline between neighbours\<close>
  "join_lines [] = []"
| "join_lines [l] = l"
| "join_lines (l # ls) = l @ CHR ''\<newline>'' # join_lines ls"



section \<open>A run on three notes\<close>

definition example_notes :: directory where
  "example_notes =
     [''a.md'' \<mapsto> ''---\<newline>title: A\<newline>---\<newline>x'',
      ''b.md'' \<mapsto> ''---\<newline>title: Grocery List\<newline>---\<newline>Grocery Lists\<newline>Milk\<newline>Eggs\<newline>'',
      ''c.md'' \<mapsto> ''---\<newline>title: {{date}} Notes\<newline>---\<newline>x'']"

definition example_fs :: fs where
  "example_fs = [''notes'' \<mapsto> example_notes]"

definition example_env :: env where
  "example_env =
     \<lparr>data_dir = ''/home/u/.local/share/nx'', now = ''20240101_120000'',
      copytree_error = None, glob_md = [''a.md'', ''b.md'', ''c.md''],
      read_error = (\<lambda>name. None), response = Inr ''Y'',
      write_fault = (\<lambda>name. if name = ''a.md''
                             then Some (Exception ''Permission denied'', None) else None)\<rparr>"

section \<open>Splitting at a separator\<close>

lemma find_sep_None: "find_sep sep s = None \<longleftrightarrow> \<not> sublist sep s"
  by (induction s) (auto simp: sublist_Cons_right split: prod.splits)

lemma split_butlast: "sep \<noteq> [] \<Longrightarrow> a @ sep @ r = (a @ butlast sep) @ last sep # r"
  by simp

lemma prefix_of_longer:
  assumes "prefix sep (a @ sep @ r)" "a \<noteq> []" "sep \<noteq> []"
  shows "prefix sep (a @ butlast sep)"
proof -
  have len: "length sep \<le> length (a @ butlast sep)"
    using assms(2,3) by (cases a) auto
  have "prefix (a @ butlast sep) (a @ sep @ r)"
    using split_butlast[OF assms(3), of a r] by (metis prefixI)
  from prefix_length_prefix[OF assms(1) this len] show ?thesis .
qed

lemma find_sep_first:
  "sep \<noteq> [] \<Longrightarrow> \<not> sublist sep (a @ butlast sep) \<Longrightarrow> find_sep sep (a @ sep @ r) = Some (a, r)"
proof (induction a)
  case Nil
  then show ?case by (cases sep) auto
next
  case (Cons x a)
  have "\<not> prefix sep ((x # a) @ sep @ r)"
    using prefix_of_longer[of sep "x # a" r] Cons.prems by auto
  moreover have "\<not> sublist sep (a @ butlast sep)"
    using Cons.prems(2) by (simp add: sublist_Cons_right)
  ultimately show ?case using Cons by simp
qed

lemma find_sep_Some:
  "sep \<noteq> [] \<Longrightarrow> find_sep sep s = Some (a, r) \<Longrightarrow> s = a @ sep @ r \<and> \<not> sublist sep (a @ butlast sep)"
proof (induction s arbitrary: a)
  case Nil
  then show ?case by simp
next
  case (Cons c cs)
  show ?case
  proof (cases "prefix sep (c # cs)")
    case True
    then have a: "a = []" and r: "r = drop (length sep) (c # cs)"
      using Cons.prems(2) by auto
    from True obtain zs where zs: "c # cs = sep @ zs"
      by (auto simp: prefix_def)
    have "\<not> sublist sep (butlast sep)"
      using Cons.prems(1) sublist_length_le[of sep "butlast sep"] by (cases sep) auto
    then show ?thesis using a r zs by simp
  next
    case False
    then obtain a' where a': "find_sep sep cs = Some (a', r)" "a = c # a'"
      using Cons.prems by (auto split: prod.splits)
    from Cons.IH[OF Cons.prems(1) a'(1)] have ih: "cs = a' @ sep @ r" "\<not> sublist sep (a' @ butlast sep)"
      by auto
    have "c # cs = (c # a' @ butlast sep) @ last sep # r"
      using ih(1) split_butlast[OF Cons.prems(1), of a' r] by simp
    then have "prefix (c # a' @ butlast sep) (c # cs)"
      by (metis prefixI)
    with False have "\<not> prefix sep (c # a' @ butlast sep)"
      using prefix_order.trans by blast
    then show ?thesis using ih a' by (simp add: sublist_Cons_right)
  qed
qed

lemma py_splitn_none: "\<not> sublist sep s \<Longrightarrow> py_splitn sep n s = [s]"
  by (cases n) (simp_all add: find_sep_None[symmetric])

lemma py_splitn_first:
  "sep \<noteq> [] \<Longrightarrow> \<not> sublist sep (a @ butlast sep) \<Longrightarrow>
   py_splitn sep (Suc n) (a @ sep @ r) = a # py_splitn sep n r"
  by (simp add: find_sep_first)

lemma py_splitn_cases:
  assumes "sep \<noteq> []"
  obtains (none) "\<not> sublist sep s" "py_splitn sep (Suc n) s = [s]"
  | (cut) a r where "s = a @ sep @ r" "\<not> sublist sep (a @ butlast sep)"
      "py_splitn sep (Suc n) s = a # py_splitn sep n r"
proof (cases "find_sep sep s")
  case None
  then have "\<not> sublist sep s" by (simp add: find_sep_None)
  moreover from None have "py_splitn sep (Suc n) s = [s]" by simp
  ultimately show ?thesis by (rule none)
next
  case (Some p)
  obtain a r where p: "p = (a, r)" by (cases p)
  from find_sep_Some[OF assms Some[unfolded p]] Some p cut show ?thesis by simp
qed

subsection \<open>Trimming\<close>

lemma strip_all_space: "\<forall>c\<in>set w. isspace c \<Longrightarrow> dropWhile isspace (w @ s) = dropWhile isspace s"
  by (induction w) auto

lemma strip_pad:
  assumes "\<forall>c\<in>set w1. isspace c" "\<forall>c\<in>set w2. isspace c"
  shows "strip (w1 @ s @ w2) = strip s"
proof -
  have 1: "dropWhile isspace (w1 @ s @ w2) = dropWhile isspace (s @ w2)"
    using assms(1) by (rule strip_all_space)
  show ?thesis
  proof (cases "\<forall>c\<in>set s. isspace c")
    case True
    then have e: "dropWhile isspace (s @ w2) = []" "dropWhile isspace s = []"
      using assms(2) by (simp_all only: dropWhile_eq_Nil_conv set_append Un_iff) auto
    show ?thesis by (simp only: strip_def 1 e)
  next
    case False
    then obtain x where "x \<in> set s" "\<not> isspace x" by auto
    then have "dropWhile isspace (s @ w2) = dropWhile isspace s @ w2"
      by (rule dropWhile_append1)
    then have "rev (dropWhile isspace (s @ w2)) = rev w2 @ rev (dropWhile isspace s)"
      by simp
    moreover have "\<forall>c\<in>set (rev w2). isspace c" using assms(2) by simp
    ultimately show ?thesis
      by (simp add: strip_def 1 strip_all_space)
  qed
qed

lemma strip_Nil [simp]: "strip [] = []" by (simp add: strip_def)

lemma sublist_strip: "sublist (strip s) s"
proof -
  have "sublist (rev (strip s)) (rev (dropWhile isspace s))"
    by (simp add: strip_def)
  then have "sublist (strip s) (dropWhile isspace s)"
    by (simp add: sublist_rev_left)
  moreover have "sublist (dropWhile isspace s) s" by simp
  ultimately show ?thesis using sublist_order.order_trans by blast
qed

lemma strip_ends:
  "strip s = [] \<or> (\<not> isspace (hd (strip s)) \<and> \<not> isspace (last (strip s)))"
proof (cases "strip s = []")
  case True
  then show ?thesis by simp
next
  case False
  define u where "u = dropWhile isspace s"
  define v where "v = dropWhile isspace (rev u)"
  have s: "strip s = rev v" by (simp add: strip_def u_def v_def)
  with False have v: "v \<noteq> []" by simp
  then have hv: "\<not> isspace (hd v)" unfolding v_def by (rule hd_dropWhile)
  from v have ru: "rev u \<noteq> []" unfolding v_def by auto
  have "suffix v (rev u)" unfolding v_def by (rule suffix_dropWhile)
  then obtain w where "rev u = w @ v" by (auto simp: suffix_def)
  with v have "last v = last (rev u)" by simp
  also have "\<dots> = hd u" using ru by (simp add: last_rev)
  finally have lv: "last v = hd u" .
  from ru have "\<not> isspace (hd u)" unfolding u_def using hd_dropWhile[of isspace s] by simp
  with lv hv v show ?thesis by (simp add: s hd_rev last_rev)
qed

lemma strip_id:
  assumes "t = [] \<or> (\<not> isspace (hd t) \<and> \<not> isspace (last t))"
  shows "strip t = t"
proof (cases "t = []")
  case True
  then show ?thesis by simp
next
  case False
  with assms have h: "\<not> isspace (hd t)" and l: "\<not> isspace (last t)" by auto
  from False h have 1: "dropWhile isspace t = t" by (cases t) auto
  from False l have 2: "dropWhile isspace (rev t) = rev t"
    by (cases "rev t") (auto simp: last_rev[symmetric] hd_rev)
  show ?thesis by (simp add: strip_def 1 2)
qed

lemma strip_fixed: "strip (strip s) = strip s"
  using strip_ends[of s] by (rule strip_id)

lemma strip_newline_after: "strip (strip s @ ''\<newline>'') = strip s"
proof -
  have "strip ([] @ strip s @ ''\<newline>'') = strip (strip s)"
    by (rule strip_pad) (simp_all add: isspace_def)
  then show ?thesis by (simp add: strip_fixed)
qed

lemma strip_newline_around: "strip (''\<newline>'' @ strip s @ ''\<newline>'') = strip s"
proof -
  have "strip (''\<newline>'' @ strip s @ ''\<newline>'') = strip (strip s)"
    by (rule strip_pad) (simp_all add: isspace_def)
  then show ?thesis by (simp add: strip_fixed)
qed


section \<open>The migration writer\<close>

text \<open>
  C1. The writer builds the new body \<open>"# " + title + "\n\n" + body\<close> and the file text
  \<open>"---\n" + metadata + "\n---\n\n" + new body + "\n"\<close>, and, when the file can be
  written, stores that text under the note's path. For the title \<open>Grocery List\<close> and the
  body \<open>Grocery Lists\nMilk\nEggs\<close> the new body is
  \<open># Grocery List\n\nGrocery Lists\nMilk\nEggs\<close>.
\<close>

theorem migrate_note_writes:
  "new_content t b = ''# '' @ t @ ''\<newline>\<newline>'' @ b \<and>
   full_content m (new_content t b) =
     ''---\<newline>'' @ m @ ''\<newline>---\<newline>\<newline>'' @ (''# '' @ t @ ''\<newline>\<newline>'' @ b) @ ''\<newline>'' \<and>
   (write_fault e path = None \<longrightarrow>
      migrate_note e d path t m b =
        (None, d(path \<mapsto> ''---\<newline>'' @ m @ ''\<newline>---\<newline>\<newline>'' @ (''# '' @ t @ ''\<newline>\<newline>'' @ b) @ ''\<newline>''))) \<and>
   new_content ''Grocery List'' ''Grocery Lists\<newline>Milk\<newline>Eggs'' =
     ''# Grocery List\<newline>\<newline>Grocery Lists\<newline>Milk\<newline>Eggs''"
  by (simp add: new_content_def full_content_def migrate_note_def write_text_def)

theorem migrate_note_writes_witness:
  "write_fault example_env ''b.md'' = None \<and>
   migrate_note example_env Map.empty ''b.md'' ''Grocery List'' ''title: Grocery List''
       ''Grocery Lists\<newline>Milk\<newline>Eggs'' =
     (None, [''b.md'' \<mapsto> ''---\<newline>title: Grocery List\<newline>---\<newline>\<newline># Grocery List\<newline>\<newline>Grocery Lists\<newline>Milk\<newline>Eggs\<newline>''])"
  using migrate_note_writes [of "''Grocery List''" "''Grocery Lists\<newline>Milk\<newline>Eggs''"
      "''title: Grocery List''" example_env "''b.md''" Map.empty]
  by (simp add: example_env_def)


section \<open>The analysis loop\<close>

lemma analyze_note_Some:
  assumes "analyze_note name text = (out, Some (n, t, y, b))"
  shows "n = name \<and> (\<exists>w. parse_note_file text = Some (y, b, w)) \<and>
         t = extract_title_from_yaml y \<and> \<not> startswith t ''.notebook'' \<and>
         \<not> contains ''{{'' t \<and> needs_migration t (get_first_line_title b)"
  using assms
  by (auto simp: analyze_note_def Let_def split: option.splits if_splits)

lemma analyze_records:
  assumes "analyze e d names = Inr (recs, outs)" "(n, t, y, b) \<in> set recs"
  shows "n \<in> set names \<and> (\<exists>text w. read_text e d n = Inr text \<and> parse_note_file text = Some (y, b, w)) \<and>
         t = extract_title_from_yaml y \<and> \<not> startswith t ''.notebook'' \<and>
         \<not> contains ''{{'' t \<and> needs_migration t (get_first_line_title b)"
  using assms
proof (induction names arbitrary: recs outs)
  case Nil
  then show ?case by simp
next
  case (Cons name rest)
  from Cons.prems(1) obtain src out r recs' outs' where
    rd: "read_text e d name = Inr src" and an: "analyze_note name src = (out, r)"
    and rest: "analyze e d rest = Inr (recs', outs')"
    and recs: "recs = (case r of None \<Rightarrow> recs' | Some x \<Rightarrow> x # recs')"
    by (auto split: sum.splits prod.splits)
  show ?case
  proof (cases "(n, t, y, b) \<in> set recs'")
    case True
    from Cons.IH[OF rest True] show ?thesis by auto
  next
    case False
    with Cons.prems(2) recs have r: "r = Some (n, t, y, b)"
      by (cases r) auto
    from analyze_note_Some[OF an[unfolded r]] rd show ?thesis by auto
  qed
qed

text \<open>
  C2, as amended. A parsed note whose stored title contains \<open>{{\<close> is never added to the
  migration list, also when the body's first line equals the stored title. The driver
  prints \<open>SKIP: Contains template variables\<close> for it, unless the title starts with
  \<open>.notebook\<close>: that check comes first, and the note is then reported as a notebook
  marker file. No record of the migration list has a title containing \<open>{{\<close>.
\<close>

theorem template_title_not_migrated:
  "(parse_note_file text = Some (y, b, w) \<and> contains ''{{'' (extract_title_from_yaml y) \<longrightarrow>
      analyze_note name text =
        ([''\<newline>Analyzing: '' @ name,
          ''  Stored title: '' @ quoted (extract_title_from_yaml y),
          ''  First line: '' @ quoted (get_first_line_title b),
          if startswith (extract_title_from_yaml y) ''.notebook''
          then ''  SKIP: Notebook marker file''
          else ''  SKIP: Contains template variables (needs manual attention)''], None)) \<and>
   (analyze e d names = Inr (recs, outs) \<and> (n, t, y', b') \<in> set recs \<longrightarrow>
      \<not> contains ''{{'' t)"
  using analyze_records[of e d names recs outs n t y' b']
  by (simp add: analyze_note_def Let_def)

text \<open>
  The claim as written fails for the title \<open>.notebook {{x}}\<close>: it contains \<open>{{\<close>, and
  the driver reports a notebook marker file, not a template.
\<close>

theorem template_title_counterexample:
  "parse_note_file ''---\<newline>title: .notebook {{x}}\<newline>---\<newline>body'' =
     Some (''title: .notebook {{x}}'', ''body'', ''---\<newline>title: .notebook {{x}}\<newline>---\<newline>body'') \<and>
   extract_title_from_yaml ''title: .notebook {{x}}'' = ''.notebook {{x}}'' \<and>
   contains ''{{'' ''.notebook {{x}}'' \<and>
   snd (analyze_note ''n.md'' ''---\<newline>title: .notebook {{x}}\<newline>---\<newline>body'') = None \<and>
   last (fst (analyze_note ''n.md'' ''---\<newline>title: .notebook {{x}}\<newline>---\<newline>body'')) =
     ''  SKIP: Notebook marker file''"
  by code_simp

theorem template_title_not_migrated_witness:
  "parse_note_file ''---\<newline>title: {{date}} Notes\<newline>---\<newline>{{date}} Notes'' =
     Some (''title: {{date}} Notes'', ''{{date}} Notes'', ''---\<newline>title: {{date}} Notes\<newline>---\<newline>{{date}} Notes'') \<and>
   contains ''{{'' (extract_title_from_yaml ''title: {{date}} Notes'') \<and>
   get_first_line_title ''{{date}} Notes'' = extract_title_from_yaml ''title: {{date}} Notes'' \<and>
   analyze_note ''t.md'' ''---\<newline>title: {{date}} Notes\<newline>---\<newline>{{date}} Notes'' =
     ([''\<newline>Analyzing: t.md'', ''  Stored title: '' @ quoted ''{{date}} Notes'',
       ''  First line: '' @ quoted ''{{date}} Notes'',
       ''  SKIP: Contains template variables (needs manual attention)''], None) \<and>
   analyze example_env example_notes [''a.md'', ''b.md'', ''c.md''] =
     Inr ([(''a.md'', ''A'', ''title: A'', ''x''),
           (''b.md'', ''Grocery List'', ''title: Grocery List'', ''Grocery Lists\<newline>Milk\<newline>Eggs'')],
          snd (projr (analyze example_env example_notes [''a.md'', ''b.md'', ''c.md'']))) \<and>
   \<not> contains ''{{'' ''Grocery List''"
proof -
  have a: "analyze example_env example_notes [''a.md'', ''b.md'', ''c.md''] =
     Inr ([(''a.md'', ''A'', ''title: A'', ''x''),
           (''b.md'', ''Grocery List'', ''title: Grocery List'', ''Grocery Lists\<newline>Milk\<newline>Eggs'')],
          snd (projr (analyze example_env example_notes [''a.md'', ''b.md'', ''c.md''])))"
    by code_simp
  have l: "\<not> contains ''{{'' ''Grocery List''"
    using template_title_not_migrated[of _ _ _ _ _ example_env example_notes "[''a.md'', ''b.md'', ''c.md'']"
      "[(''a.md'', ''A'', ''title: A'', ''x''),
           (''b.md'', ''Grocery List'', ''title: Grocery List'', ''Grocery Lists\<newline>Milk\<newline>Eggs'')]"
      "snd (projr (analyze example_env example_notes [''a.md'', ''b.md'', ''c.md'']))"
      "''b.md''" "''Grocery List''" "''title: Grocery List''" "''Grocery Lists\<newline>Milk\<newline>Eggs''"] a
    by simp
  have p: "parse_note_file ''---\<newline>title: {{date}} Notes\<newline>---\<newline>{{date}} Notes'' =
     Some (''title: {{date}} Notes'', ''{{date}} Notes'', ''---\<newline>title: {{date}} Notes\<newline>---\<newline>{{date}} Notes'')"
    by code_simp
  have t: "extract_title_from_yaml ''title: {{date}} Notes'' = ''{{date}} Notes''"
    by code_simp
  have c: "contains ''{{'' (extract_title_from_yaml ''title: {{date}} Notes'')"
    by code_simp
  have g: "get_first_line_title ''{{date}} Notes'' = ''{{date}} Notes''"
    by code_simp
  have n: "\<not> startswith ''{{date}} Notes'' ''.notebook''"
    by code_simp
  from template_title_not_migrated[of "''---\<newline>title: {{date}} Notes\<newline>---\<newline>{{date}} Notes''"
      "''title: {{date}} Notes''" "''{{date}} Notes''" _ "''t.md''"] p c
  have "analyze_note ''t.md'' ''---\<newline>title: {{date}} Notes\<newline>---\<newline>{{date}} Notes'' =
        ([''\<newline>Analyzing: t.md'',
          ''  Stored title: '' @ quoted (extract_title_from_yaml ''title: {{date}} Notes''),
          ''  First line: '' @ quoted (get_first_line_title ''{{date}} Notes''),
          if startswith (extract_title_from_yaml ''title: {{date}} Notes'') ''.notebook''
          then ''  SKIP: Notebook marker file''
          else ''  SKIP: Contains template variables (needs manual attention)''], None)"
    by simp
  with p c t g n a l show ?thesis by simp
qed


text \<open>
  C3. A parsed note whose stored title is empty is classified \<open>OK\<close>, whatever its body:
  \<open>needs_migration\<close> is false for the empty title, the driver prints
  \<open>OK: Title already matches\<close> and appends no record, and no record of the migration
  list has an empty title.
\<close>

theorem empty_title_ok:
  "\<not> needs_migration '''' first_line \<and>
   (parse_note_file text = Some (y, b, w) \<and> extract_title_from_yaml y = '''' \<longrightarrow>
      analyze_note name text =
        ([''\<newline>Analyzing: '' @ name, ''  Stored title: '' @ quoted '''',
          ''  First line: '' @ quoted (get_first_line_title b),
          ''  OK: Title already matches''], None)) \<and>
   (analyze e d names = Inr (recs, outs) \<and> (n, t, y', b') \<in> set recs \<longrightarrow> t \<noteq> '''')"
  using analyze_records[of e d names recs outs n t y' b']
  by (auto simp: analyze_note_def Let_def needs_migration_def startswith_def contains_def)

theorem empty_title_ok_witness:
  "parse_note_file ''---\<newline>tags: x\<newline>---\<newline>Anything at all'' =
     Some (''tags: x'', ''Anything at all'', ''---\<newline>tags: x\<newline>---\<newline>Anything at all'') \<and>
   extract_title_from_yaml ''tags: x'' = '''' \<and>
   analyze_note ''n.md'' ''---\<newline>tags: x\<newline>---\<newline>Anything at all'' =
     ([''\<newline>Analyzing: n.md'', ''  Stored title: '' @ quoted '''',
       ''  First line: '' @ quoted ''Anything at all'', ''  OK: Title already matches''], None) \<and>
   analyze example_env example_notes [''a.md'', ''b.md'', ''c.md''] =
     Inr ([(''a.md'', ''A'', ''title: A'', ''x''),
           (''b.md'', ''Grocery List'', ''title: Grocery List'', ''Grocery Lists\<newline>Milk\<newline>Eggs'')],
          snd (projr (analyze example_env example_notes [''a.md'', ''b.md'', ''c.md'']))) \<and>
   ''A'' \<noteq> ''''"
proof -
  have p: "parse_note_file ''---\<newline>tags: x\<newline>---\<newline>Anything at all'' =
     Some (''tags: x'', ''Anything at all'', ''---\<newline>tags: x\<newline>---\<newline>Anything at all'')"
    by code_simp
  have t: "extract_title_from_yaml ''tags: x'' = ''''"
    by code_simp
  have g: "get_first_line_title ''Anything at all'' = ''Anything at all''"
    by code_simp
  have a: "analyze example_env example_notes [''a.md'', ''b.md'', ''c.md''] =
     Inr ([(''a.md'', ''A'', ''title: A'', ''x''),
           (''b.md'', ''Grocery List'', ''title: Grocery List'', ''Grocery Lists\<newline>Milk\<newline>Eggs'')],
          snd (projr (analyze example_env example_notes [''a.md'', ''b.md'', ''c.md''])))"
    by code_simp
  note inst = empty_title_ok[of _ "''---\<newline>tags: x\<newline>---\<newline>Anything at all''" "''tags: x''"
      "''Anything at all''" "''---\<newline>tags: x\<newline>---\<newline>Anything at all''" "''n.md''"
      example_env example_notes "[''a.md'', ''b.md'', ''c.md'']"
      "[(''a.md'', ''A'', ''title: A'', ''x''),
           (''b.md'', ''Grocery List'', ''title: Grocery List'', ''Grocery Lists\<newline>Milk\<newline>Eggs'')]"
      "snd (projr (analyze example_env example_notes [''a.md'', ''b.md'', ''c.md'']))"
      "''a.md''" "''A''" "''title: A''" "''x''"]
  from inst p t g a show ?thesis by simp
qed

text \<open>
  C10. On its own, \<open>needs_migration\<close> is true for every non-empty stored title containing
  \<open>{{\<close>, whatever the first line is. In the driver the check for \<open>{{\<close> comes before the
  call, so no record is appended for such a note.
\<close>

theorem needs_migration_template:
  "(stored_title \<noteq> [] \<and> contains ''{{'' stored_title \<longrightarrow>
      needs_migration stored_title first_line) \<and>
   (parse_note_file text = Some (y, b, w) \<and> extract_title_from_yaml y = stored_title \<and>
    contains ''{{'' stored_title \<longrightarrow> snd (analyze_note name text) = None)"
  by (simp add: needs_migration_def analyze_note_def Let_def)

theorem needs_migration_template_witness:
  "''{{date}} Notes'' \<noteq> [] \<and> contains ''{{'' ''{{date}} Notes'' \<and>
   needs_migration ''{{date}} Notes'' ''{{date}} Notes'' \<and>
   parse_note_file ''---\<newline>title: {{date}} Notes\<newline>---\<newline>{{date}} Notes'' =
     Some (''title: {{date}} Notes'', ''{{date}} Notes'', ''---\<newline>title: {{date}} Notes\<newline>---\<newline>{{date}} Notes'') \<and>
   extract_title_from_yaml ''title: {{date}} Notes'' = ''{{date}} Notes'' \<and>
   snd (analyze_note ''t.md'' ''---\<newline>title: {{date}} Notes\<newline>---\<newline>{{date}} Notes'') = None"
proof -
  have p: "parse_note_file ''---\<newline>title: {{date}} Notes\<newline>---\<newline>{{date}} Notes'' =
     Some (''title: {{date}} Notes'', ''{{date}} Notes'', ''---\<newline>title: {{date}} Notes\<newline>---\<newline>{{date}} Notes'')"
    by code_simp
  have t: "extract_title_from_yaml ''title: {{date}} Notes'' = ''{{date}} Notes''"
    by code_simp
  have c: "contains ''{{'' ''{{date}} Notes''"
    by code_simp
  from needs_migration_template[of "''{{date}} Notes''" "''{{date}} Notes''"
      "''---\<newline>title: {{date}} Notes\<newline>---\<newline>{{date}} Notes''" "''title: {{date}} Notes''"
      "''{{date}} Notes''" _ "''t.md''"] p t c
  show ?thesis by simp
qed


section \<open>The marker \<open>---\<close> and a newline\<close>

lemma sublist_append_without_last:
  assumes "sep \<noteq> []" "last sep \<notin> set z" "sublist sep (x @ z)"
  shows "sublist sep x"
proof -
  from assms(3) consider "sublist sep x" | "sublist sep z"
    | xs1 xs2 where "sep = xs1 @ xs2" "suffix xs1 x" "prefix xs2 z"
    unfolding sublist_append by blast
  then show ?thesis
  proof cases
    case 1
    then show ?thesis .
  next
    case 2
    then have "set sep \<subseteq> set z" by (rule set_mono_sublist)
    with assms(1,2) show ?thesis using last_in_set by blast
  next
    case 3
    show ?thesis
    proof (cases "xs2 = []")
      case True
      with 3 show ?thesis by auto
    next
      case False
      with 3(1) have "last sep = last xs2" by simp
      moreover from False have "last xs2 \<in> set xs2" by simp
      moreover from 3(3) have "set xs2 \<subseteq> set z" by (rule set_mono_prefix)
      ultimately show ?thesis using assms(2) by auto
    qed
  qed
qed

lemma marker_not_across_dashes:
  "\<not> sublist ''---\<newline>'' a \<Longrightarrow> \<not> sublist ''---\<newline>'' (a @ butlast ''---\<newline>'')"
  using sublist_append_without_last[of "''---\<newline>''" "''---''" a] by auto

lemma marker_not_across_newline:
  assumes "\<not> sublist ''---\<newline>'' m" "\<not> suffix ''---'' m"
  shows "\<not> sublist ''---\<newline>'' ((m @ ''\<newline>'') @ butlast ''---\<newline>'')"
proof
  assume "sublist ''---\<newline>'' ((m @ ''\<newline>'') @ butlast ''---\<newline>'')"
  then have "sublist ''---\<newline>'' ((m @ ''\<newline>'') @ ''---'')" by simp
  then have "sublist ''---\<newline>'' (m @ ''\<newline>'')"
    using sublist_append_without_last[of "''---\<newline>''" "''---''" "m @ ''\<newline>''"] by simp
  then have "sublist (''---'' @ [CHR ''\<newline>'']) (m @ [CHR ''\<newline>''])" by simp
  then show False using assms unfolding snoc_sublist_snoc by simp
qed

lemma first_cut_is_leftmost:
  assumes "sep \<noteq> []" "a @ sep @ x = a' @ sep @ r'" "\<not> sublist sep (a' @ butlast sep)"
  shows "length a' \<le> length a"
proof (rule ccontr)
  assume "\<not> length a' \<le> length a"
  then have len: "length (a @ sep) \<le> length (a' @ butlast sep)" using assms(1) by simp
  have 1: "prefix (a @ sep) (a @ sep @ x)" by simp
  have "a' @ sep @ r' = (a' @ butlast sep) @ last sep # r'"
    using assms(1) by (rule split_butlast)
  then have 2: "prefix (a' @ butlast sep) (a @ sep @ x)"
    unfolding assms(2) by (metis prefixI)
  from prefix_length_prefix[OF 1 2 len] have "sublist sep (a' @ butlast sep)"
    by (metis prefix_imp_sublist sublist_appendI sublist_order.order_trans append_Nil2)
  with assms(3) show False by simp
qed

lemma py_splitn_two_parts:
  assumes "sep \<noteq> []" "\<not> sublist sep (a @ butlast sep)" "\<not> sublist sep (b @ butlast sep)"
  shows "py_splitn sep 2 (a @ sep @ b @ sep @ c) = [a, b, c]"
proof -
  have "py_splitn sep (Suc (Suc 0)) (a @ sep @ b @ sep @ c) = a # py_splitn sep (Suc 0) (b @ sep @ c)"
    using assms(1,2) by (rule py_splitn_first)
  also have "py_splitn sep (Suc 0) (b @ sep @ c) = b # py_splitn sep 0 c"
    using assms(1,3) by (rule py_splitn_first)
  finally show ?thesis by (simp add: numeral_2_eq_2)
qed

lemma py_splitn_two:
  assumes "sep \<noteq> []"
  shows "(\<exists>p0 p1 p2. py_splitn sep 2 s = [p0, p1, p2]) \<longleftrightarrow> (\<exists>a b c. s = a @ sep @ b @ sep @ c)"
proof
  assume "\<exists>p0 p1 p2. py_splitn sep 2 s = [p0, p1, p2]"
  then obtain p0 p1 p2 where p: "py_splitn sep (Suc (Suc 0)) s = [p0, p1, p2]"
    by (auto simp: numeral_2_eq_2)
  show "\<exists>a b c. s = a @ sep @ b @ sep @ c"
  proof (rule py_splitn_cases[where sep = sep and s = s and n = "Suc 0"], goal_cases)
    case 1
    show ?case by (rule assms)
  next
    case 2
    with p show ?case by simp
  next
    case (3 a r)
    with p have r: "py_splitn sep (Suc 0) r = [p1, p2]" by simp
    show ?case
    proof (rule py_splitn_cases[where sep = sep and s = r and n = 0], goal_cases)
      case 1
      show ?case by (rule assms)
    next
      case 2
      with r show ?case by simp
    next
      case (3 b c)
      with \<open>s = a @ sep @ r\<close> show ?case by blast
    qed
  qed
next
  assume "\<exists>a b c. s = a @ sep @ b @ sep @ c"
  then obtain a b c where s: "s = a @ sep @ b @ sep @ c" by blast
  show "\<exists>p0 p1 p2. py_splitn sep 2 s = [p0, p1, p2]"
  proof (rule py_splitn_cases[where sep = sep and s = s and n = "Suc 0"], goal_cases)
    case 1
    show ?case by (rule assms)
  next
    case 2
    with s show ?case by simp
  next
    case (3 a' r')
    note cut = 3
    have le: "length a' \<le> length a"
      using assms cut(1)[unfolded s] cut(2) by (rule first_cut_is_leftmost)
    have "r' = drop (length a' + length sep) (a' @ sep @ r')" by simp
    also have "\<dots> = drop (length a' + length sep) ((a @ sep @ b) @ sep @ c)"
      using cut(1) s by simp
    also have "\<dots> = drop (length a' + length sep) (a @ sep @ b) @ sep @ c"
      using le by simp
    finally have sub: "sublist sep r'" by (metis sublist_appendI)
    show ?case
    proof (rule py_splitn_cases[where sep = sep and s = r' and n = 0], goal_cases)
      case 1
      show ?case by (rule assms)
    next
      case 2
      with sub show ?case by simp
    next
      case (3 b' c')
      with cut(3) show ?case by (simp add: numeral_2_eq_2)
    qed
  qed
qed

lemma parse_note_file_Some:
  "parse_note_file s = Some (m, b, w) \<longleftrightarrow>
     (\<exists>p0 p1 p2. py_splitn ''---\<newline>'' 2 s = [p0, p1, p2] \<and> m = strip p1 \<and> b = strip p2 \<and> w = s)"
  by (auto simp: parse_note_file_def split: list.splits)

lemma parse_note_file_None:
  "parse_note_file s \<noteq> None \<longleftrightarrow> (\<exists>p0 p1 p2. py_splitn ''---\<newline>'' 2 s = [p0, p1, p2])"
  by (auto simp: parse_note_file_def split: list.splits)

section \<open>The note parser\<close>

text \<open>
  What the code does. The parser succeeds exactly when the text contains the four
  characters \<open>---\n\<close> twice, one occurrence after the other, wherever in a line they
  stand; it cuts at the two leftmost occurrences, drops what precedes the first, and returns
  the text between them and the text after the second, each trimmed.
\<close>

lemma parse_note_file_cuts:
  "(parse_note_file s \<noteq> None \<longleftrightarrow>
      (\<exists>a b c. s = a @ ''---\<newline>'' @ b @ ''---\<newline>'' @ c)) \<and>
   (\<not> sublist ''---\<newline>'' a \<and> \<not> sublist ''---\<newline>'' b \<longrightarrow>
      parse_note_file (a @ ''---\<newline>'' @ b @ ''---\<newline>'' @ c) =
        Some (strip b, strip c, a @ ''---\<newline>'' @ b @ ''---\<newline>'' @ c))"
proof (intro conjI impI)
  show "parse_note_file s \<noteq> None \<longleftrightarrow>
      (\<exists>a b c. s = a @ ''---\<newline>'' @ b @ ''---\<newline>'' @ c)"
    unfolding parse_note_file_None by (rule py_splitn_two) simp
next
  assume "\<not> sublist ''---\<newline>'' a \<and> \<not> sublist ''---\<newline>'' b"
  then have "\<not> sublist ''---\<newline>'' (a @ butlast ''---\<newline>'')"
    and "\<not> sublist ''---\<newline>'' (b @ butlast ''---\<newline>'')"
    by (simp_all only: marker_not_across_dashes not_False_eq_True)
  then have "py_splitn ''---\<newline>'' 2 (a @ ''---\<newline>'' @ b @ ''---\<newline>'' @ c) = [a, b, c]"
    by (intro py_splitn_two_parts) simp_all
  then show "parse_note_file (a @ ''---\<newline>'' @ b @ ''---\<newline>'' @ c) =
        Some (strip b, strip c, a @ ''---\<newline>'' @ b @ ''---\<newline>'' @ c)"
    unfolding parse_note_file_Some by blast
qed

text \<open>
  C4. The parser is to succeed exactly when the text has two lines that consist of the
  marker \<open>---\<close> alone, and to cut at those lines. The code cuts at the characters
  \<open>---\n\<close> instead and departs from that in both directions. The text
  \<open>---\ntitle: x\n---\<close> has two marker lines, the second at the end of the file without a
  newline, and is not parsed. The text \<open>x---\ntitle: T---\nbody\<close> has no marker line and
  is parsed, its first line dropped.
\<close>

theorem parse_note_file_not_at_marker_lines:
  "py_split ''\<newline>'' ''---\<newline>title: x\<newline>---'' = [''---'', ''title: x'', ''---''] \<and>
   parse_note_file ''---\<newline>title: x\<newline>---'' = None \<and>
   py_split ''\<newline>'' ''x---\<newline>title: T---\<newline>body'' = [''x---'', ''title: T---'', ''body''] \<and>
   parse_note_file ''x---\<newline>title: T---\<newline>body'' =
     Some (''title: T'', ''body'', ''x---\<newline>title: T---\<newline>body'')"
  by code_simp

lemma parse_note_file_cuts_example:
  "\<not> sublist ''---\<newline>'' ''intro '' \<and> \<not> sublist ''---\<newline>'' ''title: T\<newline>'' \<and>
   parse_note_file (''intro '' @ ''---\<newline>'' @ ''title: T\<newline>'' @ ''---\<newline>'' @ ''\<newline>Body\<newline>---\<newline>more\<newline>'') =
     Some (''title: T'', ''Body\<newline>---\<newline>more'',
           ''intro '' @ ''---\<newline>'' @ ''title: T\<newline>'' @ ''---\<newline>'' @ ''\<newline>Body\<newline>---\<newline>more\<newline>'') \<and>
   parse_note_file ''---\<newline>title: T\<newline>---\<newline>Body'' \<noteq> None \<and>
   parse_note_file ''---\<newline>title: T\<newline>Body'' = None"
proof -
  have a: "\<not> sublist ''---\<newline>'' ''intro ''" by code_simp
  have b: "\<not> sublist ''---\<newline>'' ''title: T\<newline>''" by code_simp
  have sb: "strip ''title: T\<newline>'' = ''title: T''" by code_simp
  have sc: "strip ''\<newline>Body\<newline>---\<newline>more\<newline>'' = ''Body\<newline>---\<newline>more''" by code_simp
  have e: "''---\<newline>title: T\<newline>---\<newline>Body'' = [] @ ''---\<newline>'' @ ''title: T\<newline>'' @ ''---\<newline>'' @ ''Body''"
    by simp
  from parse_note_file_cuts[of _ "''intro ''" "''title: T\<newline>''" "''\<newline>Body\<newline>---\<newline>more\<newline>''"] a b
  have 1: "parse_note_file (''intro '' @ ''---\<newline>'' @ ''title: T\<newline>'' @ ''---\<newline>'' @ ''\<newline>Body\<newline>---\<newline>more\<newline>'') =
     Some (''title: T'', ''Body\<newline>---\<newline>more'',
           ''intro '' @ ''---\<newline>'' @ ''title: T\<newline>'' @ ''---\<newline>'' @ ''\<newline>Body\<newline>---\<newline>more\<newline>'')"
    unfolding sb sc by blast
  from parse_note_file_cuts[of "''---\<newline>title: T\<newline>---\<newline>Body''"] e
  have 2: "parse_note_file ''---\<newline>title: T\<newline>---\<newline>Body'' \<noteq> None" by blast
  have 3: "parse_note_file ''---\<newline>title: T\<newline>Body'' = None" by code_simp
  from a b 1 2 3 show ?thesis by blast
qed


section \<open>Parsing what the writer serialises\<close>

lemma parse_note_file_parts:
  assumes "parse_note_file s = Some (m, b, w)"
  shows "\<not> sublist ''---\<newline>'' m \<and> strip m = m \<and> strip b = b"
proof -
  from assms obtain p0 p1 p2 where
    p: "py_splitn ''---\<newline>'' (Suc (Suc 0)) s = [p0, p1, p2]" and m: "m = strip p1" and b: "b = strip p2"
    unfolding parse_note_file_Some by (auto simp: numeral_2_eq_2)
  have "\<not> sublist ''---\<newline>'' p1"
  proof (rule py_splitn_cases[where sep = "''---\<newline>''" and s = s and n = "Suc 0"], goal_cases)
    case 1
    show ?case by simp
  next
    case 2
    with p show ?case by simp
  next
    case (3 a r)
    with p have r: "py_splitn ''---\<newline>'' (Suc 0) r = [p1, p2]" by simp
    show ?case
    proof (rule py_splitn_cases[where sep = "''---\<newline>''" and s = r and n = 0], goal_cases)
      case 1
      show ?case by simp
    next
      case 2
      with r show ?case by simp
    next
      case (3 a' r')
      with r have "a' = p1" by simp
      with 3(2) have "\<not> sublist ''---\<newline>'' (p1 @ ''---'')" by simp
      then show ?case
        by (metis sublist_append_rightI sublist_order.order_trans)
    qed
  qed
  moreover have "sublist m p1" unfolding m by (rule sublist_strip)
  ultimately have "\<not> sublist ''---\<newline>'' m"
    using sublist_order.order_trans by blast
  then show ?thesis by (simp add: m b strip_fixed)
qed

text \<open>
  Where the code does read back what the writer serialises: when the metadata block of a
  parsed text does not end with \<open>---\<close>.
\<close>

lemma parse_full_content:
  assumes "parse_note_file s = Some (m, b, w)" "\<not> suffix ''---'' m"
  shows "parse_note_file (full_content m b) = Some (m, b, full_content m b)"
proof -
  from parse_note_file_parts[OF assms(1)]
  have nm: "\<not> sublist ''---\<newline>'' m" and sm: "strip m = m" and sb: "strip b = b"
    by simp_all
  have f: "full_content m b =
      [] @ ''---\<newline>'' @ (m @ ''\<newline>'') @ ''---\<newline>'' @ (''\<newline>'' @ b @ ''\<newline>'')"
    by (simp add: full_content_def)
  have 0: "\<not> sublist ''---\<newline>'' ([] @ butlast ''---\<newline>'')"
    by (simp add: sublist_code)
  have 1: "\<not> sublist ''---\<newline>'' ((m @ ''\<newline>'') @ butlast ''---\<newline>'')"
    using nm assms(2) by (rule marker_not_across_newline)
  have "py_splitn ''---\<newline>'' 2 (full_content m b) = [[], m @ ''\<newline>'', ''\<newline>'' @ b @ ''\<newline>'']"
    unfolding f using 0 1 by (intro py_splitn_two_parts) simp
  moreover have "strip (m @ ''\<newline>'') = m"
    using strip_newline_after[of m] by (simp add: sm)
  moreover have "strip (''\<newline>'' @ b @ ''\<newline>'') = b"
    using strip_newline_around[of b] by (simp add: sb)
  ultimately show ?thesis
    unfolding parse_note_file_Some by simp
qed

text \<open>
  C9. Serialising a parsed metadata block and body in the writer's format and parsing the
  result is to return the same metadata block and body. The code does not at the note
  \<open>---\ntitle: a ---  \n---\nbody\n\<close>: its metadata block is \<open>title: a ---\<close>, the
  newline the writer puts after the block completes the characters \<open>---\n\<close> in the
  middle of that line, and the parser cuts there. The second parse returns the metadata
  block \<open>title: a\<close> and a body that starts with \<open>---\<close>; the same happens to the file the
  migration writes for this note.
\<close>

theorem reparse_cuts_inside_metadata:
  "parse_note_file ''---\<newline>title: a ---  \<newline>---\<newline>body\<newline>'' =
     Some (''title: a ---'', ''body'', ''---\<newline>title: a ---  \<newline>---\<newline>body\<newline>'') \<and>
   full_content ''title: a ---'' ''body'' = ''---\<newline>title: a ---\<newline>---\<newline>\<newline>body\<newline>'' \<and>
   parse_note_file (full_content ''title: a ---'' ''body'') =
     Some (''title: a'', ''---\<newline>\<newline>body'', ''---\<newline>title: a ---\<newline>---\<newline>\<newline>body\<newline>'') \<and>
   extract_title_from_yaml ''title: a ---'' = ''a ---'' \<and>
   parse_note_file (full_content ''title: a ---'' (new_content ''a ---'' ''body'')) =
     Some (''title: a'', ''---\<newline>\<newline># a ---\<newline>\<newline>body'',
           ''---\<newline>title: a ---\<newline>---\<newline>\<newline># a ---\<newline>\<newline>body\<newline>'')"
  by code_simp

lemma parse_full_content_example:
  "parse_note_file ''---\<newline>title: Grocery List\<newline>---\<newline>Grocery Lists\<newline>Milk\<newline>Eggs\<newline>'' =
     Some (''title: Grocery List'', ''Grocery Lists\<newline>Milk\<newline>Eggs'',
           ''---\<newline>title: Grocery List\<newline>---\<newline>Grocery Lists\<newline>Milk\<newline>Eggs\<newline>'') \<and>
   \<not> suffix ''---'' ''title: Grocery List'' \<and>
   parse_note_file (full_content ''title: Grocery List'' ''Grocery Lists\<newline>Milk\<newline>Eggs'') =
     Some (''title: Grocery List'', ''Grocery Lists\<newline>Milk\<newline>Eggs'',
           full_content ''title: Grocery List'' ''Grocery Lists\<newline>Milk\<newline>Eggs'')"
proof -
  have p: "parse_note_file ''---\<newline>title: Grocery List\<newline>---\<newline>Grocery Lists\<newline>Milk\<newline>Eggs\<newline>'' =
     Some (''title: Grocery List'', ''Grocery Lists\<newline>Milk\<newline>Eggs'',
           ''---\<newline>title: Grocery List\<newline>---\<newline>Grocery Lists\<newline>Milk\<newline>Eggs\<newline>'')"
    by code_simp
  have n: "\<not> suffix ''---'' ''title: Grocery List''"
    by code_simp
  from p n parse_full_content[OF p n] show ?thesis by blast
qed


section \<open>Lines\<close>

lemma no_newline_sublist: "CHR ''\<newline>'' \<notin> set l \<longleftrightarrow> \<not> sublist ''\<newline>'' l"
  by (induction l) (auto simp: sublist_Cons_right)

lemma hd_py_split: "hd (py_split ''\<newline>'' s) = takeWhile (\<lambda>c. c \<noteq> CHR ''\<newline>'') s"
proof (cases "CHR ''\<newline>'' \<in> set s")
  case False
  then have tw: "takeWhile (\<lambda>c. c \<noteq> CHR ''\<newline>'') s = s" by (auto simp: takeWhile_eq_all_conv)
  from False have sp: "py_split ''\<newline>'' s = [s]"
    unfolding py_split_def by (intro py_splitn_none) (simp add: no_newline_sublist[symmetric])
  show ?thesis by (simp only: sp tw list.sel)
next
  case True
  define a where "a = takeWhile (\<lambda>c. c \<noteq> CHR ''\<newline>'') s"
  define r where "r = tl (dropWhile (\<lambda>c. c \<noteq> CHR ''\<newline>'') s)"
  from True have "dropWhile (\<lambda>c. c \<noteq> CHR ''\<newline>'') s \<noteq> []" by (simp add: dropWhile_eq_Nil_conv)
  moreover from this have "hd (dropWhile (\<lambda>c. c \<noteq> CHR ''\<newline>'') s) = CHR ''\<newline>''"
    using hd_dropWhile[of "\<lambda>c. c \<noteq> CHR ''\<newline>''" s] by simp
  ultimately have "dropWhile (\<lambda>c. c \<noteq> CHR ''\<newline>'') s = CHR ''\<newline>'' # r"
    unfolding r_def by (cases "dropWhile (\<lambda>c. c \<noteq> CHR ''\<newline>'') s") auto
  then have s: "s = a @ ''\<newline>'' @ r"
    unfolding a_def using takeWhile_dropWhile_id[of "\<lambda>c. c \<noteq> CHR ''\<newline>''" s] by simp
  have "CHR ''\<newline>'' \<notin> set a" unfolding a_def by (auto dest: set_takeWhileD)
  then have na: "\<not> sublist ''\<newline>'' (a @ butlast ''\<newline>'')"
    by (simp add: no_newline_sublist[symmetric])
  from s obtain n where n: "length s = Suc n" by (cases s) auto
  have "py_splitn ''\<newline>'' (Suc n) (a @ ''\<newline>'' @ r) = a # py_splitn ''\<newline>'' n r"
    using na by (intro py_splitn_first) simp
  then show ?thesis unfolding py_split_def n a_def[symmetric] using s by simp
qed




lemma py_splitn_not_Nil: "py_splitn sep n s \<noteq> []"
  by (cases n) (auto split: option.splits)

lemma join_lines_Cons: "ls \<noteq> [] \<Longrightarrow> join_lines (l # ls) = l @ CHR ''\<newline>'' # join_lines ls"
  by (cases ls) auto

lemma join_lines_py_splitn: "join_lines (py_splitn ''\<newline>'' n s) = s"
proof (induction n arbitrary: s)
  case 0
  then show ?case by simp
next
  case (Suc n)
  show ?case
  proof (cases "find_sep ''\<newline>'' s")
    case None
    then show ?thesis by simp
  next
    case (Some p)
    obtain a r where p: "p = (a, r)" by (cases p)
    from find_sep_Some[OF _ Some[unfolded p]] have "s = a @ ''\<newline>'' @ r" by simp
    with Some p Suc.IH[of r] show ?thesis
      by (simp add: join_lines_Cons py_splitn_not_Nil)
  qed
qed

lemma py_splitn_lines:
  "length s \<le> n \<Longrightarrow> \<forall>l\<in>set (py_splitn ''\<newline>'' n s). CHR ''\<newline>'' \<notin> set l"
proof (induction n arbitrary: s)
  case 0
  then show ?case by simp
next
  case (Suc n)
  show ?case
  proof (cases "find_sep ''\<newline>'' s")
    case None
    then have "\<not> sublist ''\<newline>'' s" by (simp add: find_sep_None)
    with None show ?thesis by (simp add: no_newline_sublist)
  next
    case (Some p)
    obtain a r where p: "p = (a, r)" by (cases p)
    from find_sep_Some[OF _ Some[unfolded p]]
    have s: "s = a @ ''\<newline>'' @ r" and a: "\<not> sublist ''\<newline>'' a" by simp_all
    from s Suc.prems have "length r \<le> n" by simp
    from Suc.IH[OF this] a Some p show ?thesis by (simp add: no_newline_sublist)
  qed
qed

lemma text_is_join_of_lines:
  "\<exists>ls. ls \<noteq> [] \<and> (\<forall>l\<in>set ls. CHR ''\<newline>'' \<notin> set l) \<and> join_lines ls = s"
  using py_splitn_lines[of s "length s"] join_lines_py_splitn[of "length s" s]
    py_splitn_not_Nil[of "''\<newline>''" "length s" s]
  by blast

section \<open>The first line of the body\<close>

lemma sub_heading_eq:
  "sub_heading l =
     (if startswith l ''#'' then dropWhile isspace (dropWhile (\<lambda>c. c = CHR ''#'') l) else l)"
  by (cases l) (simp_all add: sub_heading_def startswith_def)

text \<open>
  C6, as amended. The body-first-line is the first line of the body, trimmed; when the
  trimmed line begins with \<open>#\<close>, all its leading \<open>#\<close> characters are removed together with
  any whitespace that follows them, whether or not whitespace follows; a line that does
  not begin with \<open>#\<close> is kept.
\<close>

theorem get_first_line_title_heading:
  "get_first_line_title body =
     (let l = strip (takeWhile (\<lambda>c. c \<noteq> CHR ''\<newline>'') body)
      in if startswith l ''#'' then dropWhile isspace (dropWhile (\<lambda>c. c = CHR ''#'') l)
         else l)"
proof (cases "body = []")
  case True
  then show ?thesis by (simp add: get_first_line_title_def startswith_def)
next
  case False
  then show ?thesis
    by (simp add: get_first_line_title_def hd_py_split sub_heading_eq Let_def)
qed

text \<open>
  The claim as written fails for a first line such as \<open>#tag line\<close>: no whitespace follows
  the \<open>#\<close>, and the \<open>#\<close> is removed all the same.
\<close>

theorem get_first_line_title_counterexample:
  "get_first_line_title ''#tag line\<newline>more'' = ''tag line''"
  by code_simp

theorem get_first_line_title_heading_witness:
  "get_first_line_title ''##  Meeting Notes \<newline>...'' = ''Meeting Notes'' \<and>
   get_first_line_title '' Meeting # Notes\<newline>...'' = ''Meeting # Notes''"
proof -
  have 1: "strip (takeWhile (\<lambda>c. c \<noteq> CHR ''\<newline>'') ''##  Meeting Notes \<newline>...'') = ''##  Meeting Notes''"
    by code_simp
  have 2: "dropWhile isspace (dropWhile (\<lambda>c. c = CHR ''#'') ''##  Meeting Notes'') = ''Meeting Notes''"
    by code_simp
  have 3: "strip (takeWhile (\<lambda>c. c \<noteq> CHR ''\<newline>'') '' Meeting # Notes\<newline>...'') = ''Meeting # Notes''"
    by code_simp
  show ?thesis
    using get_first_line_title_heading[of "''##  Meeting Notes \<newline>...''"]
      get_first_line_title_heading[of "'' Meeting # Notes\<newline>...''"]
    unfolding 1 2 3 Let_def by (simp add: startswith_def 2)
qed

section \<open>The title extractor\<close>










section \<open>The run\<close>

lemma backup_name_not_notes: "backup_name e \<noteq> ''notes''"
  by (simp add: backup_name_def)

lemma copytree_fresh:
  "copytree_error e = None \<Longrightarrow> f dst = None \<Longrightarrow> copytree e f d dst = Inr (f(dst \<mapsto> d))"
  by (simp add: copytree_def)

lemma analyze_names:
  "analyze e d names = Inr (recs, outs) \<Longrightarrow>
   set (map fst recs) \<subseteq> set names \<and> (distinct names \<longrightarrow> distinct (map fst recs))"
proof (induction names arbitrary: recs outs)
  case Nil
  then show ?case by simp
next
  case (Cons name rest)
  from Cons.prems obtain src out r recs' outs' where
    an: "analyze_note name src = (out, r)"
    and rest: "analyze e d rest = Inr (recs', outs')"
    and recs: "recs = (case r of None \<Rightarrow> recs' | Some x \<Rightarrow> x # recs')"
    by (auto split: sum.splits prod.splits)
  note ih = Cons.IH[OF rest]
  show ?case
  proof (cases r)
    case None
    with recs ih show ?thesis by auto
  next
    case (Some x)
    obtain n t y b where x: "x = (n, t, y, b)" by (cases x)
    from analyze_note_Some[OF an[unfolded Some x]] have "n = name" by simp
    with recs Some x ih show ?thesis by auto
  qed
qed

lemma migrate_all_reports:
  "migrate_all e d recs = (d', k, out) \<Longrightarrow> (name, t, y, b) \<in> set recs \<Longrightarrow>
   (case write_fault e name of
      None \<Rightarrow> (''  MIGRATED: '' @ name @ '' - '' @ quoted t) \<in> set out
    | Some (err, left) \<Rightarrow> (''  ERROR: Failed to migrate '' @ name @ '': '' @ error_text err) \<in> set out)"
proof (induction recs arbitrary: d d' k out)
  case Nil
  then show ?case by simp
next
  case (Cons r recs)
  obtain n1 t1 y1 b1 where r: "r = (n1, t1, y1, b1)" by (cases r)
  obtain res d1 where m: "migrate_note e d n1 t1 y1 b1 = (res, d1)" by fastforce
  obtain d2 k2 out2 where rest: "migrate_all e d1 recs = (d2, k2, out2)"
    by (cases "migrate_all e d1 recs") auto
  show ?case
  proof (cases "(name, t, y, b) \<in> set recs")
    case True
    from Cons.IH[OF rest True] Cons.prems(1) r m rest show ?thesis
      by (cases res) (auto split: option.splits)
  next
    case False
    with Cons.prems(2) r have eq: "n1 = name" "t1 = t" "y1 = y" "b1 = b" by auto
    from m Cons.prems(1) r rest eq show ?thesis
      by (cases res) (auto simp: migrate_note_def write_text_def split: option.splits prod.splits)
  qed
qed

lemma migrate_all_other:
  "migrate_all e d recs = (d', k, out) \<Longrightarrow> name \<notin> fst ` set recs \<Longrightarrow> d' name = d name"
proof (induction recs arbitrary: d d' k out)
  case Nil
  then show ?case by simp
next
  case (Cons r recs)
  obtain n1 t1 y1 b1 where r: "r = (n1, t1, y1, b1)" by (cases r)
  obtain res d1 where m: "migrate_note e d n1 t1 y1 b1 = (res, d1)" by fastforce
  obtain d2 k2 out2 where rest: "migrate_all e d1 recs = (d2, k2, out2)"
    by (cases "migrate_all e d1 recs") auto
  from Cons.prems(2) r have ne: "n1 \<noteq> name" and notin: "name \<notin> fst ` set recs" by auto
  from m ne have "d1 name = d name"
    by (auto simp: migrate_note_def write_text_def split: option.splits prod.splits)
  moreover from Cons.IH[OF rest notin] have "d2 name = d1 name" .
  moreover from Cons.prems(1) r m rest have "d' = d2" by (cases res) auto
  ultimately show ?case by simp
qed

lemma migrate_all_written:
  "migrate_all e d recs = (d', k, out) \<Longrightarrow> distinct (map fst recs) \<Longrightarrow>
   (name, t, y, b) \<in> set recs \<Longrightarrow> write_fault e name = None \<Longrightarrow>
   d' name = Some (full_content y (new_content t b))"
proof (induction recs arbitrary: d d' k out)
  case Nil
  then show ?case by simp
next
  case (Cons r recs)
  obtain n1 t1 y1 b1 where r: "r = (n1, t1, y1, b1)" by (cases r)
  obtain res d1 where m: "migrate_note e d n1 t1 y1 b1 = (res, d1)" by fastforce
  obtain d2 k2 out2 where rest: "migrate_all e d1 recs = (d2, k2, out2)"
    by (cases "migrate_all e d1 recs") auto
  from Cons.prems(1) r m rest have d': "d' = d2" by (cases res) auto
  show ?case
  proof (cases "(name, t, y, b) \<in> set recs")
    case True
    from Cons.prems(2) have "distinct (map fst recs)" by simp
    from Cons.IH[OF rest this True Cons.prems(4)] d' show ?thesis by simp
  next
    case False
    with Cons.prems(3) r have eq: "n1 = name" "t1 = t" "y1 = y" "b1 = b" by auto
    from Cons.prems(2) r eq have "name \<notin> fst ` set recs" by auto
    from migrate_all_other[OF rest this] have "d2 name = d1 name" .
    moreover from m eq Cons.prems(4) have "d1 name = Some (full_content y (new_content t b))"
      by (auto simp: migrate_note_def write_text_def)
    ultimately show ?thesis using d' by simp
  qed
qed

lemma main_cancel:
  assumes "f ''notes'' = Some d" "copytree_error e = None" "f (backup_name e) = None"
    and "analyze e d (glob_md e) = Inr (recs, outs)" "recs \<noteq> []"
    and "response e = Inr answer" "lower answer \<noteq> ''y''"
  shows "\<exists>out4. main e f =
           Inr (0, f(backup_name e \<mapsto> d), out4 @ [''Migration cancelled.''])"
proof -
  from assms(4,5) have ne: "(glob_md e = []) = False" by (cases "glob_md e") auto
  from assms(5) have re: "(recs = []) = False" by simp
  from assms(7) have F: "(lower answer = ''y'') = False" by simp
  have c: "copytree e f d (backup_name e) = Inr (f(backup_name e \<mapsto> d))"
    using assms(2,3) by (rule copytree_fresh)
  show ?thesis
    unfolding main_def Let_def
    apply (simp only: assms(1,4,6) c ne re F option.case sum.case prod.case if_False
        if_True not_False_eq_True)
    apply (intro exI)
    apply (rule refl)
    done
qed

lemma main_migrate:
  assumes "f ''notes'' = Some d" "copytree_error e = None" "f (backup_name e) = None"
    and "analyze e d (glob_md e) = Inr (recs, outs)" "recs \<noteq> []"
    and "response e = Inr answer" "lower answer = ''y''"
    and "migrate_all e d recs = (d2, k, outm)"
  shows "\<exists>out4 post. main e f =
           Inr (0, (f(backup_name e \<mapsto> d))(''notes'' \<mapsto> d2),
                out4 @ [''Starting migration...''] @ outm @ post)"
proof -
  from assms(4,5) have ne: "(glob_md e = []) = False" by (cases "glob_md e") auto
  from assms(5) have re: "(recs = []) = False" by simp
  have c: "copytree e f d (backup_name e) = Inr (f(backup_name e \<mapsto> d))"
    using assms(2,3) by (rule copytree_fresh)
  show ?thesis
    unfolding main_def Let_def
    apply (simp only: assms(1,4,6,7,8) c ne re option.case sum.case prod.case if_False
        if_True not_True_eq_False refl)
    apply (intro exI)
    apply (rule refl)
    done
qed

text \<open>
  C7. When the migration list is not empty and the answer at the prompt, lowercased, is
  not \<open>y\<close>, the run returns 0 and writes no file: the file system afterwards is the one
  before the run with the backup directory added, so every note is as it was, and the
  backup directory holds the copy of the notes. The last line printed is
  \<open>Migration cancelled.\<close>
\<close>

theorem cancelled_run:
  assumes "f ''notes'' = Some d" "copytree_error e = None" "f (backup_name e) = None"
    and "analyze e d (glob_md e) = Inr (recs, outs)" "recs \<noteq> []"
    and "response e = Inr answer" "lower answer \<noteq> ''y''"
  shows "case main e f of
           Inl err \<Rightarrow> False
         | Inr (status, f', out) \<Rightarrow>
             status = 0 \<and> f' = f(backup_name e \<mapsto> d) \<and> f' ''notes'' = f ''notes'' \<and>
             f' (backup_name e) = Some d \<and> last out = ''Migration cancelled.''"
proof -
  from main_cancel[OF assms] obtain out4 where
    m: "main e f = Inr (0, f(backup_name e \<mapsto> d), out4 @ [''Migration cancelled.''])" ..
  have "(f(backup_name e \<mapsto> d)) ''notes'' = f ''notes''"
    using backup_name_not_notes[of e] by simp
  then show ?thesis
    unfolding m by (simp only: sum.case prod.case fun_upd_same last_snoc simp_thms)
qed

theorem cancelled_run_witness:
  "lower ''no'' \<noteq> ''y'' \<and>
   (case main (example_env\<lparr>response := Inr ''no''\<rparr>) example_fs of
      Inl err \<Rightarrow> False
    | Inr (status, f', out) \<Rightarrow>
        status = 0 \<and>
        f' = example_fs(backup_name (example_env\<lparr>response := Inr ''no''\<rparr>) \<mapsto> example_notes) \<and>
        f' ''notes'' = example_fs ''notes'' \<and>
        f' (backup_name (example_env\<lparr>response := Inr ''no''\<rparr>)) = Some example_notes \<and>
        last out = ''Migration cancelled.'')"
proof -
  have h1: "example_fs ''notes'' = Some example_notes"
    by (simp add: example_fs_def)
  have h2: "copytree_error (example_env\<lparr>response := Inr ''no''\<rparr>) = None"
    by (simp add: example_env_def)
  have h3: "example_fs (backup_name (example_env\<lparr>response := Inr ''no''\<rparr>)) = None"
    by (simp add: example_fs_def backup_name_def example_env_def)
  have h4: "analyze (example_env\<lparr>response := Inr ''no''\<rparr>) example_notes
              (glob_md (example_env\<lparr>response := Inr ''no''\<rparr>)) =
            Inr ([(''a.md'', ''A'', ''title: A'', ''x''),
                  (''b.md'', ''Grocery List'', ''title: Grocery List'', ''Grocery Lists\<newline>Milk\<newline>Eggs'')],
                 snd (projr (analyze (example_env\<lparr>response := Inr ''no''\<rparr>) example_notes
                   (glob_md (example_env\<lparr>response := Inr ''no''\<rparr>)))))"
    by code_simp
  have h5: "[(''a.md'', ''A'', ''title: A'', ''x''),
             (''b.md'', ''Grocery List'', ''title: Grocery List'', ''Grocery Lists\<newline>Milk\<newline>Eggs'')] \<noteq> []"
    by simp
  have h6: "response (example_env\<lparr>response := Inr ''no''\<rparr>) = Inr ''no''"
    by simp
  have h7: "lower ''no'' \<noteq> ''y''"
    by code_simp
  from cancelled_run[OF h1 h2 h3 h4 h5 h6 h7] h7 show ?thesis by blast
qed

text \<open>
  C8. When the migration list is not empty and the answer, lowercased, is \<open>y\<close>, the run returns
  0 whichever notes fail to be written. Every record is processed: a note whose write
  fails gets its \<open>ERROR\<close> line with the text of the exception, and every other note of the
  list gets its \<open>MIGRATED\<close> line and holds the migrated text afterwards.
\<close>

theorem migrate_survives_write_failures:
  assumes "f ''notes'' = Some d" "copytree_error e = None" "f (backup_name e) = None"
    and "distinct (glob_md e)" "analyze e d (glob_md e) = Inr (recs, outs)" "recs \<noteq> []"
    and "response e = Inr answer" "lower answer = ''y''"
  shows "case main e f of
           Inl err \<Rightarrow> False
         | Inr (status, f', out) \<Rightarrow>
             status = 0 \<and>
             (\<forall>(name, t, y, b)\<in>set recs.
                case write_fault e name of
                  None \<Rightarrow>
                    (\<exists>d'. f' ''notes'' = Some d' \<and>
                          d' name = Some (full_content y (new_content t b))) \<and>
                    (''  MIGRATED: '' @ name @ '' - '' @ quoted t) \<in> set out
                | Some (err, left) \<Rightarrow>
                    (''  ERROR: Failed to migrate '' @ name @ '': '' @ error_text err) \<in> set out)"
proof -
  obtain d2 k outm where mg: "migrate_all e d recs = (d2, k, outm)"
    by (cases "migrate_all e d recs") auto
  from main_migrate[OF assms(1,2,3,5,6,7,8) mg] obtain out4 post where
    m: "main e f = Inr (0, (f(backup_name e \<mapsto> d))(''notes'' \<mapsto> d2),
                        out4 @ [''Starting migration...''] @ outm @ post)"
    by (elim exE)
  from analyze_names[OF assms(5)] assms(4) have dist: "distinct (map fst recs)" by simp
  have key: "\<forall>(name, t, y, b)\<in>set recs.
                case write_fault e name of
                  None \<Rightarrow>
                    (\<exists>d'. ((f(backup_name e \<mapsto> d))(''notes'' \<mapsto> d2)) ''notes'' = Some d' \<and>
                          d' name = Some (full_content y (new_content t b))) \<and>
                    (''  MIGRATED: '' @ name @ '' - '' @ quoted t)
                      \<in> set (out4 @ [''Starting migration...''] @ outm @ post)
                | Some (err, left) \<Rightarrow>
                    (''  ERROR: Failed to migrate '' @ name @ '': '' @ error_text err)
                      \<in> set (out4 @ [''Starting migration...''] @ outm @ post)"
  proof (intro ballI)
    fix r assume r: "r \<in> set recs"
    obtain name t y b where eq: "r = (name, t, y, b)" by (cases r)
    have "case write_fault e name of
            None \<Rightarrow>
              (\<exists>d'. ((f(backup_name e \<mapsto> d))(''notes'' \<mapsto> d2)) ''notes'' = Some d' \<and>
                    d' name = Some (full_content y (new_content t b))) \<and>
              (''  MIGRATED: '' @ name @ '' - '' @ quoted t)
                \<in> set (out4 @ [''Starting migration...''] @ outm @ post)
          | Some (err, left) \<Rightarrow>
              (''  ERROR: Failed to migrate '' @ name @ '': '' @ error_text err)
                \<in> set (out4 @ [''Starting migration...''] @ outm @ post)"
    proof (cases "write_fault e name")
      case None
      from migrate_all_written[OF mg dist r[unfolded eq] None]
      have w: "d2 name = Some (full_content y (new_content t b))" .
      from migrate_all_reports[OF mg r[unfolded eq]] None
      have "(''  MIGRATED: '' @ name @ '' - '' @ quoted t) \<in> set outm"
        by (simp only: option.case)
      then have "(''  MIGRATED: '' @ name @ '' - '' @ quoted t)
                   \<in> set (out4 @ [''Starting migration...''] @ outm @ post)"
        by (simp only: set_append Un_iff simp_thms)
      with w show ?thesis
        by (simp only: None option.case fun_upd_same option.inject simp_thms ex_simps)
    next
      case (Some p)
      obtain err left where p: "p = (err, left)" by (cases p)
      from migrate_all_reports[OF mg r[unfolded eq]] Some p
      have "(''  ERROR: Failed to migrate '' @ name @ '': '' @ error_text err) \<in> set outm"
        by (simp only: option.case prod.case)
      then have "(''  ERROR: Failed to migrate '' @ name @ '': '' @ error_text err)
                   \<in> set (out4 @ [''Starting migration...''] @ outm @ post)"
        by (simp only: set_append Un_iff simp_thms)
      then show ?thesis
        by (simp only: Some p option.case prod.case)
    qed
    then show "case r of (name, t, y, b) \<Rightarrow>
                case write_fault e name of
                  None \<Rightarrow>
                    (\<exists>d'. ((f(backup_name e \<mapsto> d))(''notes'' \<mapsto> d2)) ''notes'' = Some d' \<and>
                          d' name = Some (full_content y (new_content t b))) \<and>
                    (''  MIGRATED: '' @ name @ '' - '' @ quoted t)
                      \<in> set (out4 @ [''Starting migration...''] @ outm @ post)
                | Some (err, left) \<Rightarrow>
                    (''  ERROR: Failed to migrate '' @ name @ '': '' @ error_text err)
                      \<in> set (out4 @ [''Starting migration...''] @ outm @ post)"
      unfolding eq by (simp only: prod.case)
  qed
  show ?thesis
    unfolding m sum.case prod.case by (rule conjI[OF refl key])
qed

theorem migrate_survives_write_failures_witness:
  "write_fault example_env ''a.md'' = Some (Exception ''Permission denied'', None) \<and>
   write_fault example_env ''b.md'' = None \<and>
   (case main example_env example_fs of
      Inl err \<Rightarrow> False
    | Inr (status, f', out) \<Rightarrow>
        status = 0 \<and>
        (\<exists>d'. f' ''notes'' = Some d' \<and>
              d' ''b.md'' =
                Some ''---\<newline>title: Grocery List\<newline>---\<newline>\<newline># Grocery List\<newline>\<newline>Grocery Lists\<newline>Milk\<newline>Eggs\<newline>'') \<and>
        (''  MIGRATED: b.md - '' @ quoted ''Grocery List'') \<in> set out \<and>
        ''  ERROR: Failed to migrate a.md: Permission denied'' \<in> set out)"
proof -
  have h1: "example_fs ''notes'' = Some example_notes"
    by (simp add: example_fs_def)
  have h2: "copytree_error example_env = None"
    by (simp add: example_env_def)
  have h3: "example_fs (backup_name example_env) = None"
    by (simp add: example_fs_def backup_name_def example_env_def)
  have h4: "distinct (glob_md example_env)"
    by (simp add: example_env_def)
  have h5: "analyze example_env example_notes (glob_md example_env) =
            Inr ([(''a.md'', ''A'', ''title: A'', ''x''),
                  (''b.md'', ''Grocery List'', ''title: Grocery List'', ''Grocery Lists\<newline>Milk\<newline>Eggs'')],
                 snd (projr (analyze example_env example_notes (glob_md example_env))))"
    by code_simp
  have h6: "[(''a.md'', ''A'', ''title: A'', ''x''),
             (''b.md'', ''Grocery List'', ''title: Grocery List'', ''Grocery Lists\<newline>Milk\<newline>Eggs'')] \<noteq> []"
    by simp
  have h7: "response example_env = Inr ''Y''"
    by (simp add: example_env_def)
  have h8: "lower ''Y'' = ''y''"
    by code_simp
  have wa: "write_fault example_env ''a.md'' = Some (Exception ''Permission denied'', None)"
    by (simp add: example_env_def)
  have wb: "write_fault example_env ''b.md'' = None"
    by (simp add: example_env_def)
  have fc: "full_content ''title: Grocery List'' (new_content ''Grocery List'' ''Grocery Lists\<newline>Milk\<newline>Eggs'') =
      ''---\<newline>title: Grocery List\<newline>---\<newline>\<newline># Grocery List\<newline>\<newline>Grocery Lists\<newline>Milk\<newline>Eggs\<newline>''"
    by (simp add: full_content_def new_content_def)
  note inst = migrate_survives_write_failures[OF h1 h2 h3 h4 h5 h6 h7 h8]
  show ?thesis
  proof (cases "main example_env example_fs")
    case (Inl err)
    with inst show ?thesis by simp
  next
    case (Inr p)
    obtain status f' out where p: "p = (status, f', out)" by (cases p)
    from inst have "status = 0 \<and>
        (\<exists>d'. f' ''notes'' = Some d' \<and>
              d' ''b.md'' =
                Some ''---\<newline>title: Grocery List\<newline>---\<newline>\<newline># Grocery List\<newline>\<newline>Grocery Lists\<newline>Milk\<newline>Eggs\<newline>'') \<and>
        (''  MIGRATED: b.md - '' @ quoted ''Grocery List'') \<in> set out \<and>
        ''  ERROR: Failed to migrate a.md: Permission denied'' \<in> set out"
      unfolding Inr p by (simp add: wa wb fc)
    with wa wb show ?thesis unfolding Inr p by simp
  qed
qed

end
